theory Spec2Isabelle
  imports Complex_Main "HOL-Library.Char_ord" "HOL-Library.List_Lexorder"
begin

section \<open>The contributor check of terrasnek\<close>

text \<open>
  The script \<^verbatim>\<open>scripts/python/contributor_check.py\<close> reads a coverage report, a lint
  report and three files that carry the project version, optionally asks PyPi for the latest
  release and git for pending changes, collects messages in \<^verbatim>\<open>err_msg_list\<close>, prints and
  sets the exit status.

  Python strings are \<^typ>\<open>string\<close> here, compared character by character in the order
  of \<^theory_text>\<open>Char_ord\<close> and \<^theory_text>\<open>List_Lexorder\<close>, which is Python's order on \<^verbatim>\<open>str\<close>.
  Python floats are exact rationals together with the three non-finite values: rounding and
  overflow of IEEE doubles are not part of the model. Every exception the script can raise
  is a value of \<open>error\<close>.
\<close>

subsection \<open>Exceptions\<close>

datatype error =
    FileNotFoundError
  | JSONDecodeError
  | KeyError
  | TypeError
  | IndexError
  | ValueError
  | ConnectionError
  | ParseError
  | InvalidGitRepositoryError

subsection \<open>Python's string operations\<close>

definition newline :: char where
  "newline = CHR 0x0A"

definition space :: char where
  "space = CHR 0x20"

text \<open>\<^verbatim>\<open>str.isspace\<close> on the characters below 128.\<close>

definition isspace :: "char \<Rightarrow> bool" where
  "isspace c = ((of_char c :: nat) \<in> {9, 10, 11, 12, 13, 28, 29, 30, 31, 32})"

text \<open>\<^verbatim>\<open>s.strip()\<close>\<close>

definition strip :: "string \<Rightarrow> string" where
  "strip s = rev (dropWhile isspace (rev (dropWhile isspace s)))"

text \<open>\<^verbatim>\<open>s.startswith(sub)\<close>\<close>

definition startswith :: "string \<Rightarrow> string \<Rightarrow> bool" where
  "startswith s sub = (take (length sub) s = sub)"

text \<open>\<^verbatim>\<open>s.find(sub)\<close>: the least index where \<open>sub\<close> starts, or \<open>-1\<close>.\<close>

fun find_from :: "string \<Rightarrow> string \<Rightarrow> nat option" where
  "find_from [] sub = (if sub = [] then Some 0 else None)"
| "find_from (c # cs) sub =
     (if startswith (c # cs) sub then Some 0 else map_option Suc (find_from cs sub))"

definition find_str :: "string \<Rightarrow> string \<Rightarrow> int" where
  "find_str s sub = (case find_from s sub of None \<Rightarrow> - 1 | Some i \<Rightarrow> int i)"

text \<open>\<^verbatim>\<open>sub in s\<close>\<close>

definition contains :: "string \<Rightarrow> string \<Rightarrow> bool" where
  "contains s sub = (find_from s sub \<noteq> None)"

text \<open>\<^verbatim>\<open>s[a:b]\<close>: a negative bound counts from the end, both bounds are clamped.\<close>

definition slice_bound :: "nat \<Rightarrow> int \<Rightarrow> nat" where
  "slice_bound n i = (if i < 0 then nat (max 0 (int n + i)) else min (nat i) n)"

definition slice :: "string \<Rightarrow> int \<Rightarrow> int \<Rightarrow> string" where
  "slice s a b =
     (let lo = slice_bound (length s) a; hi = slice_bound (length s) b
      in if lo < hi then take (hi - lo) (drop lo s) else [])"

text \<open>\<^verbatim>\<open>s.split(sep)\<close> for a separator of one character: never the empty list.\<close>

fun split_char :: "char \<Rightarrow> string \<Rightarrow> string list" where
  "split_char sep [] = [[]]"
| "split_char sep (c # cs) =
     (if c = sep then [] # split_char sep cs
      else (case split_char sep cs of
              [] \<Rightarrow> [[c]]
            | w # ws \<Rightarrow> (c # w) # ws))"

text \<open>\<^verbatim>\<open>xs[0]\<close> and \<^verbatim>\<open>xs[1]\<close> and \<^verbatim>\<open>xs[-1]\<close>\<close>

definition index0 :: "'a list \<Rightarrow> error + 'a" where
  "index0 xs = (case xs of [] \<Rightarrow> Inl IndexError | x # _ \<Rightarrow> Inr x)"

definition index1 :: "'a list \<Rightarrow> error + 'a" where
  "index1 xs = (case xs of x # y # _ \<Rightarrow> Inr y | _ \<Rightarrow> Inl IndexError)"

definition index_last :: "'a list \<Rightarrow> error + 'a" where
  "index_last xs = (if xs = [] then Inl IndexError else Inr (last xs))"

text \<open>
  \<^verbatim>\<open>s.replace(old, new)\<close>: every occurrence of \<open>old\<close>, found from the left and not
  overlapping, becomes \<open>new\<close>.
\<close>

function replace_from :: "string \<Rightarrow> string \<Rightarrow> string \<Rightarrow> string" where
  "replace_from old new [] = []"
| "replace_from old new (c # cs) =
     (if startswith (c # cs) old
      then new @ replace_from old new (drop (length old - 1) cs)
      else c # replace_from old new cs)"
  by pat_completeness auto
termination
  by (relation "measure (\<lambda>(old, new, s). length s)") auto

definition replace :: "string \<Rightarrow> string \<Rightarrow> string \<Rightarrow> string" where
  "replace s old new =
     (if old = [] then new @ concat (map (\<lambda>c. c # new) s) else replace_from old new s)"

text \<open>\<^verbatim>\<open>infile.readlines()\<close>: the lines of the text, each with its line end.\<close>

fun readlines :: "string \<Rightarrow> string list" where
  "readlines [] = []"
| "readlines (c # cs) =
     (if c = newline then [c] # readlines cs
      else (case readlines cs of
              [] \<Rightarrow> [[c]]
            | l # ls \<Rightarrow> (c # l) # ls))"

text \<open>\<^verbatim>\<open>open(path, "r")\<close> and \<^verbatim>\<open>read\<close>: a file is its text, or is missing.\<close>

definition read_file :: "string option \<Rightarrow> error + string" where
  "read_file f = (case f of None \<Rightarrow> Inl FileNotFoundError | Some text \<Rightarrow> Inr text)"

subsection \<open>Floats\<close>

text \<open>
  A Python float: a finite value, held exactly, or one of the non-finite values that
  \<^verbatim>\<open>float\<close> and \<^verbatim>\<open>json.loads\<close> can deliver.
\<close>

datatype pyfloat = Finite rat | PosInf | NegInf | NaN

text \<open>\<^verbatim>\<open>x / d\<close> and \<^verbatim>\<open>x * d\<close> for a positive constant \<open>d\<close>, and \<^verbatim>\<open>x >= t\<close>.\<close>

definition float_div :: "pyfloat \<Rightarrow> rat \<Rightarrow> pyfloat" where
  "float_div x d = (case x of Finite q \<Rightarrow> Finite (q / d) | PosInf \<Rightarrow> PosInf
                    | NegInf \<Rightarrow> NegInf | NaN \<Rightarrow> NaN)"

definition float_mul :: "pyfloat \<Rightarrow> rat \<Rightarrow> pyfloat" where
  "float_mul x d = (case x of Finite q \<Rightarrow> Finite (q * d) | PosInf \<Rightarrow> PosInf
                    | NegInf \<Rightarrow> NegInf | NaN \<Rightarrow> NaN)"

definition float_ge :: "pyfloat \<Rightarrow> rat \<Rightarrow> bool" where
  "float_ge x t = (case x of Finite q \<Rightarrow> t \<le> q | PosInf \<Rightarrow> True
                   | NegInf \<Rightarrow> False | NaN \<Rightarrow> False)"

text \<open>\<^verbatim>\<open>round(x, 2)\<close>: to the nearest hundredth, a tie to the even one.\<close>

definition round_half_even :: "rat \<Rightarrow> int" where
  "round_half_even q =
     (let f = \<lfloor>q\<rfloor>; d = q - of_int f
      in if d < 1 / 2 then f else if 1 / 2 < d then f + 1
         else if even f then f else f + 1)"

definition round2 :: "pyfloat \<Rightarrow> pyfloat" where
  "round2 x = (case x of Finite q \<Rightarrow> Finite (of_int (round_half_even (q * 100)) / 100)
               | PosInf \<Rightarrow> PosInf | NegInf \<Rightarrow> NegInf | NaN \<Rightarrow> NaN)"

text \<open>
  \<^verbatim>\<open>float(s)\<close> on a string. The grammar of the language reference: white space around,
  a sign, then \<^verbatim>\<open>inf\<close>, \<^verbatim>\<open>infinity\<close> or \<^verbatim>\<open>nan\<close> in any case, or digits with an optional
  point and exponent, where one underscore may stand between two digits. Digits are the
  ten ASCII digits.
\<close>

definition isdigit :: "char \<Rightarrow> bool" where
  "isdigit c = (48 \<le> (of_char c :: nat) \<and> (of_char c :: nat) \<le> 57)"

definition digit_value :: "char \<Rightarrow> nat" where
  "digit_value c = of_char c - 48"

definition float_space :: "char \<Rightarrow> bool" where
  "float_space c = ((of_char c :: nat) \<in> {9, 10, 11, 12, 13, 32})"

definition lower :: "char \<Rightarrow> char" where
  "lower c = (if 65 \<le> (of_char c :: nat) \<and> (of_char c :: nat) \<le> 90
              then char_of ((of_char c :: nat) + 32) else c)"

fun digitpart :: "string \<Rightarrow> nat list \<times> string" where
  "digitpart [] = ([], [])"
| "digitpart [c] = (if isdigit c then ([digit_value c], []) else ([], [c]))"
| "digitpart (c # u # cs) =
     (if \<not> isdigit c then ([], c # u # cs)
      else if u = CHR ''_'' then
        (case cs of
           [] \<Rightarrow> ([digit_value c], u # cs)
         | d # ds \<Rightarrow>
             if isdigit d then (case digitpart cs of (v, r) \<Rightarrow> (digit_value c # v, r))
             else ([digit_value c], u # cs))
      else (case digitpart (u # cs) of (v, r) \<Rightarrow> (digit_value c # v, r)))"

definition digits_value :: "nat list \<Rightarrow> nat" where
  "digits_value ds = foldl (\<lambda>a d. 10 * a + d) 0 ds"

definition take_sign :: "string \<Rightarrow> bool \<times> string" where
  "take_sign s =
     (case s of
        [] \<Rightarrow> (False, s)
      | c # r \<Rightarrow> if c = CHR ''-'' then (True, r) else if c = CHR ''+'' then (False, r)
                 else (False, s))"

definition fraction :: "string \<Rightarrow> nat list \<times> string" where
  "fraction r =
     (case r of
        [] \<Rightarrow> ([], r)
      | c # r' \<Rightarrow> if c = CHR ''.'' then digitpart r' else ([], r))"

definition exponent :: "rat \<Rightarrow> string \<Rightarrow> rat option" where
  "exponent mant rest =
     (case rest of
        [] \<Rightarrow> Some mant
      | e # er \<Rightarrow>
          if e = CHR ''e'' \<or> e = CHR ''E'' then
            (case take_sign er of (eneg, ed) \<Rightarrow>
               (case digitpart ed of (ds, tail) \<Rightarrow>
                  if ds = [] then None
                  else if tail = [] then
                    (if eneg then Some (mant / 10 ^ digits_value ds)
                     else Some (mant * 10 ^ digits_value ds))
                  else None))
          else None)"

definition floatnumber :: "string \<Rightarrow> rat option" where
  "floatnumber s =
     (case digitpart s of (ip, r) \<Rightarrow>
        (case fraction r of (fp, rest) \<Rightarrow>
           if ip = [] \<and> fp = [] then None
           else exponent (of_nat (digits_value ip)
                          + of_nat (digits_value fp) / 10 ^ length fp) rest))"

definition float_of_str :: "string \<Rightarrow> error + pyfloat" where
  "float_of_str s =
     (case take_sign (rev (dropWhile float_space (rev (dropWhile float_space s)))) of
        (neg, u) \<Rightarrow>
          if map lower u = ''inf'' \<or> map lower u = ''infinity''
          then Inr (if neg then NegInf else PosInf)
          else if map lower u = ''nan'' then Inr NaN
          else (case floatnumber u of
                  None \<Rightarrow> Inl ValueError
                | Some q \<Rightarrow> Inr (Finite (if neg then - q else q))))"

subsection \<open>The coverage report\<close>

text \<open>What \<^verbatim>\<open>json.loads\<close> returns; a dict is its items, the keys distinct.\<close>

datatype json =
    JNull
  | JBool bool
  | JNumber pyfloat
  | JString string
  | JArray "json list"
  | JObject "(string \<times> json) list"

text \<open>
  The file \<^verbatim>\<open>./coverage.tfc.json\<close>: missing, or holding text that \<^verbatim>\<open>json.loads\<close> rejects,
  or holding the text of a JSON value.
\<close>

datatype json_file = NoFile | NotJson | Json json

text \<open>\<^verbatim>\<open>j[key]\<close> with a string key, and \<^verbatim>\<open>j / d\<close>.\<close>

definition getitem :: "json \<Rightarrow> string \<Rightarrow> error + json" where
  "getitem j k =
     (case j of
        JObject items \<Rightarrow> (case map_of items k of None \<Rightarrow> Inl KeyError | Some v \<Rightarrow> Inr v)
      | _ \<Rightarrow> Inl TypeError)"

definition truediv :: "json \<Rightarrow> rat \<Rightarrow> error + pyfloat" where
  "truediv j d =
     (case j of
        JNumber x \<Rightarrow> Inr (float_div x d)
      | JBool b \<Rightarrow> Inr (Finite ((if b then 1 else 0) / d))
      | _ \<Rightarrow> Inl TypeError)"

definition get_coverage_score :: "json_file \<Rightarrow> error + pyfloat" where
  "get_coverage_score infile =
     (case infile of
        NoFile \<Rightarrow> Inl FileNotFoundError
      | NotJson \<Rightarrow> Inl JSONDecodeError
      | Json json_coverage \<Rightarrow>
          (case getitem json_coverage ''totals'' of
             Inl e \<Rightarrow> Inl e
           | Inr totals \<Rightarrow>
               (case getitem totals ''percent_covered'' of
                  Inl e \<Rightarrow> Inl e
                | Inr p \<Rightarrow> truediv p 100)))"

subsection \<open>The lint report\<close>

definition preamble :: string where
  "preamble = ''Your code has been rated at ''"

text \<open>\<^verbatim>\<open>[i for i in lint_results.split("\n") if i]\<close>\<close>

definition lint_results_list :: "string \<Rightarrow> string list" where
  "lint_results_list lint_results = filter (\<lambda>i. i \<noteq> []) (split_char newline lint_results)"

text \<open>Lines 41 and 42: the score of the line picked.\<close>

definition score_of_line :: "string \<Rightarrow> error + pyfloat" where
  "score_of_line score_line =
     (case index0 (split_char space (replace score_line preamble [])) of
        Inl e \<Rightarrow> Inl e
      | Inr w \<Rightarrow>
          (case index0 (split_char (CHR ''/'') w) of
             Inl e \<Rightarrow> Inl e
           | Inr digits \<Rightarrow>
               (case float_of_str digits of
                  Inl e \<Rightarrow> Inl e
                | Inr x \<Rightarrow> Inr (float_div x 10))))"

definition get_lint_score :: "string option \<Rightarrow> error + pyfloat" where
  "get_lint_score infile =
     (case read_file infile of
        Inl e \<Rightarrow> Inl e
      | Inr lint_results \<Rightarrow>
          (case index_last (lint_results_list lint_results) of
             Inl e \<Rightarrow> Inl e
           | Inr score_line \<Rightarrow> score_of_line score_line))"

text \<open>
  What lines 41 and 42 hand to \<^verbatim>\<open>float\<close>, said directly: the line without the preamble,
  up to its first space, and of that the part before the first \<^verbatim>\<open>/\<close>.
\<close>

definition leading_text :: "string \<Rightarrow> string" where
  "leading_text line =
     takeWhile (\<lambda>c. c \<noteq> CHR ''/'') (takeWhile (\<lambda>c. c \<noteq> space) (replace line preamble []))"

subsection \<open>The local versions\<close>

text \<open>
  The loop over \<^verbatim>\<open>changelog_lines\<close>, lines 81 to 85: the first line with \<^verbatim>\<open>##\<close> in it
  gives the version and ends the loop.
\<close>

fun scan_changelog :: "string list \<Rightarrow> string option" where
  "scan_changelog [] = None"
| "scan_changelog (line # rest) =
     (if contains line ''##''
      then Some (strip (slice line (find_str line ''['' + 1) (find_str line '']'')))
      else scan_changelog rest)"

text \<open>
  The loops over \<^verbatim>\<open>setup_lines\<close> and \<^verbatim>\<open>conf_lines\<close>, lines 89 to 92 and 96 to 99, differ
  in the word looked for and in the quote character.
\<close>

fun scan_quoted :: "string \<Rightarrow> char \<Rightarrow> string list \<Rightarrow> error + string option" where
  "scan_quoted word quote [] = Inr None"
| "scan_quoted word quote (line # rest) =
     (if contains line word
      then (case index1 (split_char quote line) of
              Inl e \<Rightarrow> Inl e
            | Inr v \<Rightarrow> Inr (Some (strip v)))
      else scan_quoted word quote rest)"

definition double_quote :: char where
  "double_quote = CHR 0x22"

definition single_quote :: char where
  "single_quote = CHR 0x27"

type_synonym versions = "string option \<times> string option \<times> string option"

definition get_local_versions ::
  "string option \<Rightarrow> string option \<Rightarrow> string option \<Rightarrow> error + versions" where
  "get_local_versions changelog setup conf =
     (case read_file changelog of
        Inl e \<Rightarrow> Inl e
      | Inr changelog_text \<Rightarrow>
          (case read_file setup of
             Inl e \<Rightarrow> Inl e
           | Inr setup_text \<Rightarrow>
               (case scan_quoted ''version'' double_quote (readlines setup_text) of
                  Inl e \<Rightarrow> Inl e
                | Inr pypi_config_version \<Rightarrow>
                    (case read_file conf of
                       Inl e \<Rightarrow> Inl e
                     | Inr conf_text \<Rightarrow>
                         (case scan_quoted ''release'' single_quote (readlines conf_text) of
                            Inl e \<Rightarrow> Inl e
                          | Inr docs_version \<Rightarrow>
                              Inr (scan_changelog (readlines changelog_text),
                                   pypi_config_version, docs_version))))))"

subsection \<open>The latest version on PyPi\<close>

text \<open>
  An element of \<^verbatim>\<open>xml.etree.ElementTree\<close>: its tag, its text, which is \<^verbatim>\<open>None\<close> for an
  element with nothing in it, and its children. \<^verbatim>\<open>tree.iter(name)\<close> runs through the
  element and all below it in document order and keeps those with the tag.
\<close>

datatype element = Element string "string option" "element list"

fun tag :: "element \<Rightarrow> string" where
  "tag (Element t x cs) = t"

fun text_of :: "element \<Rightarrow> string option" where
  "text_of (Element t x cs) = x"

fun iter :: "element \<Rightarrow> string \<Rightarrow> element list" where
  "iter (Element t x cs) name =
     (if t = name then [Element t x cs] else []) @ concat (map (\<lambda>c. iter c name) cs)"

text \<open>
  What \<^verbatim>\<open>requests.get\<close> meets: no answer, which raises, or a response with a status code
  and a body. The body is held as what \<^verbatim>\<open>ET.fromstring\<close> makes of it: a parse error or
  the root element.
\<close>

datatype xml_body = NotWellFormed | WellFormed element

datatype request = NoConnection | Response nat xml_body

text \<open>The loop over \<^verbatim>\<open>enumerate(tree.iter("title"))\<close>, lines 56 to 60.\<close>

fun second_title :: "nat \<Rightarrow> element list \<Rightarrow> string option" where
  "second_title i [] = None"
| "second_title i (item # rest) =
     (if i = 1 then text_of item else second_title (i + 1) rest)"

definition get_pypi_latest_published_version :: "request \<Rightarrow> error + string option" where
  "get_pypi_latest_published_version req =
     (case req of
        NoConnection \<Rightarrow> Inl ConnectionError
      | Response status body \<Rightarrow>
          (case body of
             NotWellFormed \<Rightarrow> Inl ParseError
           | WellFormed tree \<Rightarrow> Inr (second_title 0 (iter tree ''title''))))"

subsection \<open>The git repository\<close>

text \<open>
  The working directory is no repository, or it is one with so many modified and so many
  staged files.
\<close>

datatype repository = NoRepository | Repository nat nat

definition has_staged_or_modified_files :: "repository \<Rightarrow> error + bool" where
  "has_staged_or_modified_files repo =
     (case repo of
        NoRepository \<Rightarrow> Inl InvalidGitRepositoryError
      | Repository count_modified_files count_staged_files \<Rightarrow>
          Inr (count_modified_files > 0 \<or> count_staged_files > 0))"

subsection \<open>The checks\<close>

definition MIN_COVERAGE_SCORE :: rat where
  "MIN_COVERAGE_SCORE = 8 / 10"

definition MIN_LINT_SCORE :: rat where
  "MIN_LINT_SCORE = 9 / 10"

text \<open>
  How Python prints a float is not part of the model: every function that builds text with
  a float in it takes the printing as its first argument \<open>repr\<close>.

  The message of line 140 runs over a line break inside the string literal, so the sixteen
  blanks that indent line 141 are part of it.
\<close>

definition coverage_message :: "(pyfloat \<Rightarrow> string) \<Rightarrow> pyfloat \<Rightarrow> string" where
  "coverage_message repr coverage_score =
     ''The coverage score '' @ repr coverage_score @ '' '' @ replicate 16 space
     @ ''does not meet the coverage threshold '' @ repr (Finite MIN_COVERAGE_SCORE) @ ''.''"

definition lint_message :: "(pyfloat \<Rightarrow> string) \<Rightarrow> pyfloat \<Rightarrow> string" where
  "lint_message repr lint_score =
     ''The lint score '' @ repr lint_score @ '' does not meet the lint threshold ''
     @ repr (Finite MIN_LINT_SCORE) @ ''.''"

definition mismatch_message :: string where
  "mismatch_message =
     ''The versions do not match across the important files (CHANGELOG.md, setup.py, docs/conf.py).''"

definition changelog_message :: string where
  "changelog_message =
     ''The latest version in CHANGELOG.md is greater or equal to the latest in PyPi, do not release.''"

definition pypi_config_message :: string where
  "pypi_config_message =
     ''The latest version in the PyPi config is greater or equal to the latest in PyPi, do not release.''"

definition docs_message :: string where
  "docs_message =
     ''The latest version in docs config is greater or equal to the latest in PyPi, do not release.''"

definition dirty_message :: string where
  "dirty_message =
     ''No releasing the project with staged or modified files in the git repo.''"

text \<open>
  \<^verbatim>\<open>a >= b\<close> and \<^verbatim>\<open>a < b\<close> where each side is a string or \<^verbatim>\<open>None\<close>: Python orders two
  strings and raises \<^verbatim>\<open>TypeError\<close> for every other pair.
\<close>

definition py_ge :: "string option \<Rightarrow> string option \<Rightarrow> error + bool" where
  "py_ge a b =
     (case a of
        None \<Rightarrow> Inl TypeError
      | Some x \<Rightarrow> (case b of None \<Rightarrow> Inl TypeError | Some y \<Rightarrow> Inr (x \<ge> y)))"

definition py_lt :: "string option \<Rightarrow> string option \<Rightarrow> error + bool" where
  "py_lt a b =
     (case a of
        None \<Rightarrow> Inl TypeError
      | Some x \<Rightarrow> (case b of None \<Rightarrow> Inl TypeError | Some y \<Rightarrow> Inr (x < y)))"

text \<open>
  The state of \<^verbatim>\<open>main\<close> while it checks: the messages so far, the version fetched, and
  the exception that ended the checks, if one did.
\<close>

record gate =
  err_msg_list :: "string list"
  latest_published_version :: "string option"
  raised :: "error option"

definition append_if :: "bool \<Rightarrow> string \<Rightarrow> string list \<Rightarrow> string list" where
  "append_if b msg msgs = (if b then msgs @ [msg] else msgs)"

text \<open>Lines 131 to 145: the checks of every run.\<close>

definition score_checks :: "(pyfloat \<Rightarrow> string) \<Rightarrow> pyfloat \<Rightarrow> pyfloat \<Rightarrow> string list" where
  "score_checks repr coverage_score lint_score =
     append_if (\<not> float_ge lint_score MIN_LINT_SCORE) (lint_message repr lint_score)
       (append_if (\<not> float_ge coverage_score MIN_COVERAGE_SCORE)
          (coverage_message repr coverage_score) [])"

text \<open>
  Lines 150 to 174: the checks of a release. Line 152 tests for \<^verbatim>\<open>None\<close> and its branch
  is \<^verbatim>\<open>pass\<close>, so the three comparisons follow in every case.
\<close>

definition release_checks :: "versions \<Rightarrow> request \<Rightarrow> repository \<Rightarrow> string list \<Rightarrow> gate" where
  "release_checks vs req repo msgs0 =
     (case vs of (changelog_version, pypi_config_version, docs_version) \<Rightarrow>
      (case get_pypi_latest_published_version req of
         Inl e \<Rightarrow> \<lparr>err_msg_list = msgs0, latest_published_version = None, raised = Some e\<rparr>
       | Inr latest \<Rightarrow>
        (let version_match =
               (changelog_version = pypi_config_version \<and> pypi_config_version = docs_version);
             msgs1 = append_if (\<not> version_match) mismatch_message msgs0
         in case py_ge latest changelog_version of
              Inl e \<Rightarrow> \<lparr>err_msg_list = msgs1, latest_published_version = latest,
                        raised = Some e\<rparr>
            | Inr c1 \<Rightarrow>
             (let msgs2 = append_if c1 changelog_message msgs1
              in case py_ge latest pypi_config_version of
                   Inl e \<Rightarrow> \<lparr>err_msg_list = msgs2, latest_published_version = latest,
                             raised = Some e\<rparr>
                 | Inr c2 \<Rightarrow>
                  (let msgs3 = append_if c2 pypi_config_message msgs2
                   in case py_ge latest docs_version of
                        Inl e \<Rightarrow> \<lparr>err_msg_list = msgs3, latest_published_version = latest,
                                  raised = Some e\<rparr>
                      | Inr c3 \<Rightarrow>
                       (let msgs4 = append_if c3 docs_message msgs3
                        in case has_staged_or_modified_files repo of
                             Inl e \<Rightarrow> \<lparr>err_msg_list = msgs4,
                                       latest_published_version = latest, raised = Some e\<rparr>
                           | Inr dirty \<Rightarrow>
                               \<lparr>err_msg_list = append_if dirty dirty_message msgs4,
                                latest_published_version = latest, raised = None\<rparr>))))))"

definition checks ::
  "(pyfloat \<Rightarrow> string) \<Rightarrow> bool \<Rightarrow> pyfloat \<Rightarrow> pyfloat \<Rightarrow> versions \<Rightarrow> request \<Rightarrow> repository
   \<Rightarrow> gate" where
  "checks repr release_check coverage_score lint_score vs req repo =
     (if release_check
      then release_checks vs req repo (score_checks repr coverage_score lint_score)
      else \<lparr>err_msg_list = score_checks repr coverage_score lint_score,
            latest_published_version = None, raised = None\<rparr>)"

subsection \<open>The report and the exit status\<close>

text \<open>
  A run of the script: what it wrote to standard output and how it ended, by leaving with
  a status or by an exception that nothing caught. Python ends with status 1 then.
\<close>

datatype ending = Exit nat | Uncaught error

record run =
  stdout :: string
  ending :: ending


text \<open>\<^verbatim>\<open>sep.join(xs)\<close>, and \<^verbatim>\<open>print\<close> of one and of two arguments.\<close>

fun join :: "string \<Rightarrow> string list \<Rightarrow> string" where
  "join sep [] = []"
| "join sep [x] = x"
| "join sep (x # y # ys) = x @ sep @ join sep (y # ys)"

definition print1 :: "string \<Rightarrow> string" where
  "print1 a = a @ [newline]"

definition print2 :: "string \<Rightarrow> string \<Rightarrow> string" where
  "print2 a b = a @ [space] @ b @ [newline]"

definition coverage_line :: "(pyfloat \<Rightarrow> string) \<Rightarrow> pyfloat \<Rightarrow> string" where
  "coverage_line repr coverage_score =
     ''Coverage score meets the threshold of ''
     @ repr (float_mul (Finite MIN_COVERAGE_SCORE) 100) @ ''% at ''
     @ repr (round2 (float_mul coverage_score 100)) @ ''%.''"

definition lint_line :: "(pyfloat \<Rightarrow> string) \<Rightarrow> pyfloat \<Rightarrow> string" where
  "lint_line repr lint_score =
     ''Lint score meets the threshold of ''
     @ repr (float_mul (Finite MIN_LINT_SCORE) 100) @ ''% at ''
     @ repr (round2 (float_mul lint_score 100)) @ ''%.''"

definition versions_line :: string where
  "versions_line =
     ''All of the versions match in the important files (CHANGELOG.md, setup.py, docs/conf.py).''"

definition release_line :: string where
  "release_line =
     ''All versions locally are greater than published PyPi modules, good to release.''"

text \<open>The condition of lines 183 to 186; \<^verbatim>\<open>and\<close> stops at the first false operand.\<close>

definition good_to_release :: "string option \<Rightarrow> versions \<Rightarrow> error + bool" where
  "good_to_release latest vs =
     (case vs of (changelog_version, pypi_config_version, docs_version) \<Rightarrow>
        if latest = None then Inr False
        else (case py_lt latest changelog_version of
                Inl e \<Rightarrow> Inl e
              | Inr c1 \<Rightarrow>
                  if \<not> c1 then Inr False
                  else (case py_lt latest pypi_config_version of
                          Inl e \<Rightarrow> Inl e
                        | Inr c2 \<Rightarrow>
                            if \<not> c2 then Inr False
                            else py_lt latest docs_version)))"

text \<open>Lines 176 to 187.\<close>

definition report ::
  "(pyfloat \<Rightarrow> string) \<Rightarrow> pyfloat \<Rightarrow> pyfloat \<Rightarrow> versions \<Rightarrow> string list \<Rightarrow> string option
   \<Rightarrow> run" where
  "report repr coverage_score lint_score vs msgs latest =
     (if msgs \<noteq> []
      then \<lparr>stdout = print2 (join [newline] msgs) ([newline] @ ''Exiting.''), ending = Exit 1\<rparr>
      else (let three = print1 (coverage_line repr coverage_score)
                        @ print1 (lint_line repr lint_score) @ print1 versions_line
            in case good_to_release latest vs of
                 Inl e \<Rightarrow> \<lparr>stdout = three, ending = Uncaught e\<rparr>
               | Inr good \<Rightarrow>
                   \<lparr>stdout = three @ (if good then print1 release_line else []),
                    ending = Exit 0\<rparr>))"

subsection \<open>The script\<close>

text \<open>
  What a run finds: the flag of the command line, the five files, the answer of PyPi and
  the repository.
\<close>

record world =
  release_check :: bool
  coverage_file :: json_file
  lint_file :: "string option"
  changelog_file :: "string option"
  setup_file :: "string option"
  conf_file :: "string option"
  pypi :: request
  repo :: repository

text \<open>Lines 127 to 129: the scores and the versions, or the first exception.\<close>

definition collect :: "world \<Rightarrow> error + pyfloat \<times> pyfloat \<times> versions" where
  "collect w =
     (case get_coverage_score (coverage_file w) of
        Inl e \<Rightarrow> Inl e
      | Inr coverage_score \<Rightarrow>
          (case get_lint_score (lint_file w) of
             Inl e \<Rightarrow> Inl e
           | Inr lint_score \<Rightarrow>
               (case get_local_versions (changelog_file w) (setup_file w) (conf_file w) of
                  Inl e \<Rightarrow> Inl e
                | Inr vs \<Rightarrow> Inr (coverage_score, lint_score, vs))))"

definition main :: "(pyfloat \<Rightarrow> string) \<Rightarrow> world \<Rightarrow> run" where
  "main repr w =
     (case collect w of
        Inl e \<Rightarrow> \<lparr>stdout = [], ending = Uncaught e\<rparr>
      | Inr (coverage_score, lint_score, vs) \<Rightarrow>
          (let g = checks repr (release_check w) coverage_score lint_score vs (pypi w) (repo w)
           in case raised g of
                Some e \<Rightarrow> \<lparr>stdout = [], ending = Uncaught e\<rparr>
              | None \<Rightarrow>
                  report repr coverage_score lint_score vs (err_msg_list g)
                    (latest_published_version g)))"

subsection \<open>Kinds of message\<close>


definition already_released :: "string \<Rightarrow> bool" where
  "already_released msg = (msg \<in> {changelog_message, pypi_config_message, docs_message})"

subsection \<open>Example inputs\<close>

text \<open>
  The feed of PyPi with its own title and the title of one release, and the feed with no
  release in it.
\<close>

definition release_feed :: "string \<Rightarrow> element" where
  "release_feed v =
     Element ''rss'' None
       [Element ''channel'' None
          [Element ''title'' (Some ''PyPI recent updates for terrasnek'') [],
           Element ''item'' None [Element ''title'' (Some v) []]]]"

definition empty_feed :: element where
  "empty_feed =
     Element ''rss'' None
       [Element ''channel'' None
          [Element ''title'' (Some ''PyPI recent updates for terrasnek'') []]]"

definition coverage_report :: "rat \<Rightarrow> json" where
  "coverage_report p =
     JObject [(''meta'', JObject [(''version'', JString ''5.0'')]),
              (''totals'', JObject [(''covered_lines'', JNumber (Finite 10)),
                                    (''percent_covered'', JNumber (Finite p))])]"

definition rated_line :: string where
  "rated_line = ''Your code has been rated at 9.15/10 (previous run: 9.00/10, +0.15)''"

definition lint_report :: "string \<Rightarrow> string" where
  "lint_report score_line =
     ''************* Module terrasnek.api'' @ [newline] @ [newline]
     @ ''------------------------------------'' @ [newline]
     @ score_line @ [newline] @ [newline]"

definition changelog :: "string \<Rightarrow> string" where
  "changelog v =
     ''# Changelog'' @ [newline] @ [newline] @ ''## ['' @ v @ ''] - 2020-09-01''
     @ [newline] @ ''## [0.0.1]'' @ [newline]"

definition setup_py :: "string \<Rightarrow> string" where
  "setup_py v =
     ''setuptools.setup('' @ [newline] @ ''    version='' @ [double_quote] @ v
     @ [double_quote] @ '','' @ [newline] @ '')'' @ [newline]"

definition conf_py :: "string \<Rightarrow> string" where
  "conf_py v =
     ''project = '' @ [single_quote] @ ''terrasnek'' @ [single_quote] @ [newline]
     @ ''release = '' @ [single_quote] @ v @ [single_quote] @ [newline]"

text \<open>
  A run with coverage \<open>p\<close> percent, lint score 9.15 of 10, the three versions given, and
  a clean repository.
\<close>

definition example_world ::
  "bool \<Rightarrow> rat \<Rightarrow> string \<Rightarrow> string \<Rightarrow> string \<Rightarrow> request \<Rightarrow> world" where
  "example_world flag p v1 v2 v3 answer =
     \<lparr>release_check = flag,
      coverage_file = Json (coverage_report p),
      lint_file = Some (lint_report rated_line),
      changelog_file = Some (changelog v1),
      setup_file = Some (setup_py v2),
      conf_file = Some (conf_py v3),
      pypi = answer,
      repo = Repository 0 0\<rparr>"

text \<open>A printing of floats for the examples: it tells the finite values from the others.\<close>

definition example_repr :: "pyfloat \<Rightarrow> string" where
  "example_repr x = (case x of Finite q \<Rightarrow> ''<float>'' | PosInf \<Rightarrow> ''inf''
                     | NegInf \<Rightarrow> ''-inf'' | NaN \<Rightarrow> ''nan'')"

section \<open>Properties\<close>

subsection \<open>The example inputs, evaluated\<close>

lemma collect_example_world:
  "collect (example_world flag 95 ''1.3.0'' ''1.3.0'' ''1.3.0'' answer)
     = Inr (Finite (19 / 20), Finite (183 / 200), Some ''1.3.0'', Some ''1.3.0'', Some ''1.3.0'')"
  unfolding example_world_def by code_simp

lemma example_world_fields:
  "release_check (example_world flag p v1 v2 v3 answer) = flag"
  "pypi (example_world flag p v1 v2 v3 answer) = answer"
  "repo (example_world flag p v1 v2 v3 answer) = Repository 0 0"
  "coverage_file (example_world flag p v1 v2 v3 answer) = Json (coverage_report p)"
  by (simp_all add: example_world_def)

subsection \<open>The latest version on PyPi\<close>

lemma second_title_0:
  "second_title 0 xs = (if length xs < 2 then None else text_of (xs ! 1))"
proof (cases xs)
  case Nil
  then show ?thesis by simp
next
  case (Cons a rest)
  then show ?thesis by (cases rest) simp_all
qed

lemma empty_feed_no_version:
  "get_pypi_latest_published_version (Response 200 (WellFormed empty_feed)) = Inr None"
  by (simp add: get_pypi_latest_published_version_def empty_feed_def)

text \<open>
  Claim C2, as the code has it: \<^verbatim>\<open>get_pypi_latest_published_version\<close> returns \<^verbatim>\<open>None\<close>
  when the feed has fewer than two \<^verbatim>\<open>title\<close> elements and the text of the second one
  otherwise, whatever the status code of the response is. A request that fails and a body
  that is not well-formed XML raise past the caller.
\<close>

theorem latest_published_version_cases:
  "get_pypi_latest_published_version NoConnection = Inl ConnectionError
   \<and> get_pypi_latest_published_version (Response status NotWellFormed) = Inl ParseError
   \<and> get_pypi_latest_published_version (Response status (WellFormed tree))
       = Inr (if length (iter tree ''title'') < 2 then None
              else text_of (iter tree ''title'' ! 1))"
  by (simp add: get_pypi_latest_published_version_def second_title_0)

text \<open>
  Claim C2 as stated fails: with no connection and with a body that is not XML the function
  raises instead of returning \<^verbatim>\<open>None\<close>, and from a response with status 404 whose body
  is a feed it returns the version in the feed.
\<close>

theorem latest_published_version_raises:
  "get_pypi_latest_published_version NoConnection = Inl ConnectionError
   \<and> get_pypi_latest_published_version (Response 200 NotWellFormed) = Inl ParseError
   \<and> get_pypi_latest_published_version (Response 404 (WellFormed (release_feed ''1.3.0'')))
       = Inr (Some ''1.3.0'')"
  by (simp add: get_pypi_latest_published_version_def release_feed_def)

subsection \<open>A release check without a version from PyPi\<close>

lemma release_checks_without_remote:
  assumes "get_pypi_latest_published_version req = Inr None"
  shows "raised (release_checks vs req tree_state msgs) = Some TypeError"
  using assms by (cases vs) (simp add: release_checks_def py_ge_def)

text \<open>
  Claim C1 asks that a release check for which PyPi gave no version still completes and
  reports the other checks. The code does not: the feed below has no release, the fetch
  returns \<^verbatim>\<open>None\<close>, line 159 compares \<^verbatim>\<open>None\<close> with a string, and the run ends there
  with a \<^verbatim>\<open>TypeError\<close> and nothing printed, although coverage, lint score, versions and
  repository are all in order.
\<close>

theorem release_check_without_remote_raises:
  "get_pypi_latest_published_version (Response 200 (WellFormed empty_feed)) = Inr None
   \<and> main repr (example_world True 95 ''1.3.0'' ''1.3.0'' ''1.3.0''
                  (Response 200 (WellFormed empty_feed)))
       = \<lparr>stdout = [], ending = Uncaught TypeError\<rparr>"
proof -
  have "raised (checks repr True (Finite (19 / 20)) (Finite (183 / 200))
          (Some ''1.3.0'', Some ''1.3.0'', Some ''1.3.0'')
          (Response 200 (WellFormed empty_feed)) (Repository 0 0)) = Some TypeError"
    by (simp add: checks_def release_checks_without_remote empty_feed_no_version)
  then show ?thesis
    by (simp add: empty_feed_no_version main_def collect_example_world example_world_fields)
qed

subsection \<open>The coverage score\<close>



subsection \<open>The checks\<close>

lemma append_if_simps:
  "append_if True msg msgs = msgs @ [msg]"
  "append_if False msg msgs = msgs"
  by (simp_all add: append_if_def)





subsection \<open>The report\<close>


subsection \<open>The messages about the coverage\<close>


lemma already_released_simps:
  "\<not> already_released (coverage_message repr x)"
  "\<not> already_released (lint_message repr y)"
  "\<not> already_released mismatch_message"
  "already_released changelog_message"
  "already_released pypi_config_message"
  "already_released docs_message"
  "\<not> already_released dirty_message"
  by (simp_all add: already_released_def coverage_message_def lint_message_def
      mismatch_message_def changelog_message_def pypi_config_message_def docs_message_def
      dirty_message_def)

lemma mismatch_not_score_message:
  "mismatch_message \<noteq> coverage_message repr x"
  "mismatch_message \<noteq> lint_message repr y"
  by (simp_all add: coverage_message_def lint_message_def mismatch_message_def)



lemma score_checks_low_coverage:
  assumes "\<not> float_ge cs MIN_COVERAGE_SCORE"
  shows "score_checks repr cs ls \<noteq> []"
  using assms by (simp add: score_checks_def append_if_def)



lemma filter_already_released_score_checks:
  "filter already_released (score_checks repr cs ls) = []"
  by (simp add: score_checks_def append_if_def already_released_simps)

lemma release_checks_already_released:
  assumes "get_pypi_latest_published_version req = Inr (Some remote)"
  shows "filter already_released
           (err_msg_list (release_checks (Some a, Some b, Some c) req tree_state msgs))
         = filter already_released msgs
           @ (if remote \<ge> a then [changelog_message] else [])
           @ (if remote \<ge> b then [pypi_config_message] else [])
           @ (if remote \<ge> c then [docs_message] else [])"
  using assms
  by (cases "has_staged_or_modified_files tree_state")
     (simp_all add: release_checks_def py_ge_def Let_def append_if_def already_released_simps)

subsection \<open>Versions released already\<close>

text \<open>
  Claim C4, as the code has it: in a release check with the version \<open>remote\<close> fetched, a
  local version gets its message exactly when \<open>remote\<close> is greater than or equal to it in
  the order of strings, that is when the local version is less than or equal to the one on
  PyPi. Three local versions equal to the remote one, all \<^verbatim>\<open>1.3.0\<close> for example, give
  exactly the three messages, one for each file.
\<close>

theorem already_released_messages:
  assumes "get_pypi_latest_published_version req = Inr (Some remote)"
  shows "filter already_released
           (err_msg_list (checks repr True cs ls (Some a, Some b, Some c) req tree_state))
         = (if remote \<ge> a then [changelog_message] else [])
           @ (if remote \<ge> b then [pypi_config_message] else [])
           @ (if remote \<ge> c then [docs_message] else [])
       \<and> filter already_released
           (err_msg_list (checks repr True cs ls (Some remote, Some remote, Some remote)
              req tree_state))
         = [changelog_message, pypi_config_message, docs_message]"
  using assms
  by (simp add: checks_def release_checks_already_released filter_already_released_score_checks)

lemma feed_version:
  "get_pypi_latest_published_version (Response 200 (WellFormed (release_feed v))) = Inr (Some v)"
  by (simp add: get_pypi_latest_published_version_def release_feed_def)

text \<open>Claim C4 at the versions \<^verbatim>\<open>1.3.0\<close> of the claim.\<close>

theorem already_released_messages_witness:
  "get_pypi_latest_published_version (Response 200 (WellFormed (release_feed ''1.3.0'')))
     = Inr (Some ''1.3.0'')
   \<and> filter already_released
        (err_msg_list (checks example_repr True (Finite (19 / 20)) (Finite (183 / 200))
           (Some ''1.3.0'', Some ''1.3.0'', Some ''1.3.0'')
           (Response 200 (WellFormed (release_feed ''1.3.0''))) (Repository 0 0)))
      = [changelog_message, pypi_config_message, docs_message]"
  using already_released_messages [where req = "Response 200 (WellFormed (release_feed ''1.3.0''))"
      and remote = "''1.3.0''" and repr = example_repr and cs = "Finite (19 / 20)"
      and ls = "Finite (183 / 200)" and a = "''1.3.0''" and b = "''1.3.0''" and c = "''1.3.0''"
      and tree_state = "Repository 0 0"]
    feed_version [of "''1.3.0''"]
  by simp

lemma collect_newer_world:
  "collect (example_world flag 95 ''1.4.0'' ''1.4.0'' ''1.4.0'' answer)
     = Inr (Finite (19 / 20), Finite (183 / 200), Some ''1.4.0'', Some ''1.4.0'', Some ''1.4.0'')"
  unfolding example_world_def by code_simp

lemma checks_newer_world:
  "checks repr True (Finite (19 / 20)) (Finite (183 / 200))
     (Some ''1.4.0'', Some ''1.4.0'', Some ''1.4.0'')
     (Response 200 (WellFormed (release_feed ''1.3.0''))) (Repository 0 0)
   = \<lparr>err_msg_list = [], latest_published_version = Some ''1.3.0'', raised = None\<rparr>"
  by (simp add: checks_def release_checks_def feed_version py_ge_def score_checks_def
      append_if_def float_ge_def MIN_COVERAGE_SCORE_def MIN_LINT_SCORE_def
      has_staged_or_modified_files_def)

text \<open>
  Claim C4 as stated fails in its reason: local versions \<^verbatim>\<open>1.4.0\<close> are greater than the
  remote \<^verbatim>\<open>1.3.0\<close> and give no message at all; the run ends with status 0.
\<close>

theorem newer_local_version_passes:
  "''1.4.0'' \<ge> ''1.3.0''
   \<and> get_pypi_latest_published_version (Response 200 (WellFormed (release_feed ''1.3.0'')))
       = Inr (Some ''1.3.0'')
   \<and> collect (example_world True 95 ''1.4.0'' ''1.4.0'' ''1.4.0''
                (Response 200 (WellFormed (release_feed ''1.3.0''))))
       = Inr (Finite (19 / 20), Finite (183 / 200), Some ''1.4.0'', Some ''1.4.0'', Some ''1.4.0'')
   \<and> err_msg_list (checks example_repr True (Finite (19 / 20)) (Finite (183 / 200))
         (Some ''1.4.0'', Some ''1.4.0'', Some ''1.4.0'')
         (Response 200 (WellFormed (release_feed ''1.3.0''))) (Repository 0 0)) = []
   \<and> ending (main example_repr (example_world True 95 ''1.4.0'' ''1.4.0'' ''1.4.0''
                (Response 200 (WellFormed (release_feed ''1.3.0''))))) = Exit 0"
  by (simp add: feed_version collect_newer_world checks_newer_world main_def
      example_world_fields report_def good_to_release_def py_lt_def)

subsection \<open>Example runs\<close>


lemma collect_mismatch_world:
  "collect (example_world flag 95 ''1.2.0'' ''1.2.0'' ''1.2.1'' answer)
     = Inr (Finite (19 / 20), Finite (183 / 200), Some ''1.2.0'', Some ''1.2.0'', Some ''1.2.1'')"
  unfolding example_world_def by code_simp





lemma mismatch_not_in_score_checks:
  "mismatch_message \<notin> set (score_checks repr cs ls)"
  by (simp add: score_checks_def append_if_def mismatch_not_score_message)

subsection \<open>Versions without a release check\<close>

text \<open>
  Claim C10: without the flag \<^verbatim>\<open>--release-check\<close> no message about versions that differ
  is produced, what the run prints and how it ends depends on the two scores only, and
  when both scores meet their thresholds the run prints the line that says all versions
  match and leaves with status 0, whatever the three versions are.
\<close>

theorem versions_unchecked_without_release_check:
  assumes "collect w = Inr (coverage_score, lint_score, vs)"
    and "\<not> release_check w"
  shows "mismatch_message \<notin> set (err_msg_list
           (checks repr (release_check w) coverage_score lint_score vs (pypi w) (repo w)))
       \<and> main repr w = report repr coverage_score lint_score (None, None, None)
                         (score_checks repr coverage_score lint_score) None
       \<and> (float_ge coverage_score MIN_COVERAGE_SCORE \<and> float_ge lint_score MIN_LINT_SCORE
            \<longrightarrow> main repr w =
                  \<lparr>stdout = coverage_line repr coverage_score @ [newline]
                             @ lint_line repr lint_score @ [newline]
                             @ versions_line @ [newline],
                   ending = Exit 0\<rparr>)"
proof -
  have c: "checks repr (release_check w) coverage_score lint_score vs (pypi w) (repo w)
      = \<lparr>err_msg_list = score_checks repr coverage_score lint_score,
         latest_published_version = None, raised = None\<rparr>"
    using assms(2) by (simp add: checks_def)
  have m: "main repr w = report repr coverage_score lint_score vs
             (score_checks repr coverage_score lint_score) None"
    using assms(1) c by (simp add: main_def)
  have r: "report repr coverage_score lint_score vs msgs None
      = report repr coverage_score lint_score (None, None, None) msgs None" for msgs
    by (cases vs) (simp add: report_def good_to_release_def)
  have ok: "score_checks repr coverage_score lint_score = []"
    if "float_ge coverage_score MIN_COVERAGE_SCORE" "float_ge lint_score MIN_LINT_SCORE"
    using that by (simp add: score_checks_def append_if_def)
  have p: "main repr w =
                  \<lparr>stdout = coverage_line repr coverage_score @ [newline]
                             @ lint_line repr lint_score @ [newline]
                             @ versions_line @ [newline],
                   ending = Exit 0\<rparr>"
    if "float_ge coverage_score MIN_COVERAGE_SCORE" "float_ge lint_score MIN_LINT_SCORE"
    using m ok [OF that] by (cases vs) (simp add: report_def good_to_release_def print1_def)
  show ?thesis
    using c m r p by (simp add: mismatch_not_in_score_checks)
qed

text \<open>
  Claim C10 at a run whose versions are \<^verbatim>\<open>1.2.0\<close>, \<^verbatim>\<open>1.2.0\<close> and \<^verbatim>\<open>1.2.1\<close>.
\<close>

theorem versions_unchecked_without_release_check_witness:
  "collect (example_world False 95 ''1.2.0'' ''1.2.0'' ''1.2.1'' NoConnection)
     = Inr (Finite (19 / 20), Finite (183 / 200), Some ''1.2.0'', Some ''1.2.0'', Some ''1.2.1'')
   \<and> \<not> release_check (example_world False 95 ''1.2.0'' ''1.2.0'' ''1.2.1'' NoConnection)
   \<and> ''1.2.0'' \<noteq> ''1.2.1''
   \<and> float_ge (Finite (19 / 20)) MIN_COVERAGE_SCORE
   \<and> float_ge (Finite (183 / 200)) MIN_LINT_SCORE
   \<and> main example_repr (example_world False 95 ''1.2.0'' ''1.2.0'' ''1.2.1'' NoConnection)
     = \<lparr>stdout = coverage_line example_repr (Finite (19 / 20)) @ [newline]
                  @ lint_line example_repr (Finite (183 / 200)) @ [newline]
                  @ versions_line @ [newline],
        ending = Exit 0\<rparr>"
proof -
  have f: "\<not> release_check (example_world False 95 ''1.2.0'' ''1.2.0'' ''1.2.1'' NoConnection)"
    by (simp add: example_world_fields)
  have g: "float_ge (Finite (19 / 20)) MIN_COVERAGE_SCORE"
    "float_ge (Finite (183 / 200)) MIN_LINT_SCORE"
    by (simp_all add: float_ge_def MIN_COVERAGE_SCORE_def MIN_LINT_SCORE_def)
  have "main example_repr (example_world False 95 ''1.2.0'' ''1.2.0'' ''1.2.1'' NoConnection)
     = \<lparr>stdout = coverage_line example_repr (Finite (19 / 20)) @ [newline]
                  @ lint_line example_repr (Finite (183 / 200)) @ [newline]
                  @ versions_line @ [newline],
        ending = Exit 0\<rparr>"
    using versions_unchecked_without_release_check [where repr = example_repr,
        OF collect_mismatch_world f] g
    by blast
  then show ?thesis
    using f g by (simp add: collect_mismatch_world)
qed

subsection \<open>The lint score\<close>

lemma split_char_not_Nil: "split_char sep s \<noteq> []"
  by (induction s) (auto split: list.splits)

lemma split_char_head: "split_char sep s = takeWhile (\<lambda>c. c \<noteq> sep) s # tl (split_char sep s)"
proof (induction s)
  case Nil
  then show ?case by simp
next
  case (Cons c s)
  then show ?case
    using split_char_not_Nil [of sep s] by (auto split: list.splits)
qed

lemma index0_split_char: "index0 (split_char sep s) = Inr (takeWhile (\<lambda>c. c \<noteq> sep) s)"
  by (subst split_char_head) (simp add: index0_def)




lemma float_of_str_error: "float_of_str s = Inl e \<Longrightarrow> e = ValueError"
  by (auto simp: float_of_str_def split: prod.splits if_splits option.splits)

lemma score_of_line_leading_text:
  "score_of_line line =
     (case float_of_str (leading_text line) of
        Inl e \<Rightarrow> Inl ValueError
      | Inr x \<Rightarrow> Inr (float_div x 10))"
  using float_of_str_error [of "leading_text line"]
  by (auto simp: score_of_line_def leading_text_def index0_split_char split: sum.splits)

lemma get_lint_score_last_line:
  "get_lint_score (Some lint_results) =
     (if lint_results_list lint_results = [] then Inl IndexError
      else score_of_line (last (lint_results_list lint_results)))"
  by (simp add: get_lint_score_def read_file_def index_last_def)







text \<open>
  Claim C7, as the code has it: \<^verbatim>\<open>get_lint_score\<close> fails with \<^verbatim>\<open>IndexError\<close> when the
  report has no non-empty line and with \<^verbatim>\<open>ValueError\<close> when the leading text of its last
  non-empty line is no numeral for \<^verbatim>\<open>float\<close>; in every other case it returns that number
  divided by 10, whether the line has the form \<^verbatim>\<open>Your code has been rated at X/10\<close>
  or not.
\<close>

theorem get_lint_score_cases:
  "get_lint_score (Some lint_results) =
     (if lint_results_list lint_results = [] then Inl IndexError
      else (case float_of_str (leading_text (last (lint_results_list lint_results))) of
              Inl e \<Rightarrow> Inl ValueError
            | Inr x \<Rightarrow> Inr (float_div x 10)))"
  by (simp add: get_lint_score_last_line score_of_line_leading_text)

text \<open>
  Claim C7 at a report whose last line starts with a word, and at a report of line breaks.
\<close>

theorem get_lint_score_cases_witness:
  "lint_results_list (''pylint: no files to check'' @ [newline]) = [''pylint: no files to check'']
   \<and> float_of_str (leading_text ''pylint: no files to check'') = Inl ValueError
   \<and> get_lint_score (Some (''pylint: no files to check'' @ [newline])) = Inl ValueError
   \<and> lint_results_list [newline, newline] = []
   \<and> get_lint_score (Some [newline, newline]) = Inl IndexError"
proof -
  have a: "lint_results_list (''pylint: no files to check'' @ [newline])
             = [''pylint: no files to check'']"
    by code_simp
  have b: "float_of_str (leading_text ''pylint: no files to check'') = Inl ValueError"
    by code_simp
  have c: "lint_results_list [newline, newline] = []"
    by code_simp
  show ?thesis
    using get_lint_score_cases [of "''pylint: no files to check'' @ [newline]"]
      get_lint_score_cases [of "[newline, newline]"] a b c
    by simp
qed

text \<open>
  Claim C7 as stated fails: the last line \<^verbatim>\<open>10 files checked\<close> has neither the preamble
  nor \<^verbatim>\<open>/10\<close> in it, and the score returned is 1.
\<close>

theorem get_lint_score_accepts_other_lines:
  "\<not> startswith ''10 files checked'' preamble
   \<and> \<not> contains ''10 files checked'' ''/10''
   \<and> lint_results_list (''Summary'' @ [newline] @ ''10 files checked'' @ [newline])
       = [''Summary'', ''10 files checked'']
   \<and> get_lint_score (Some (''Summary'' @ [newline] @ ''10 files checked'' @ [newline]))
       = Inr (Finite 1)"
  by code_simp

subsection \<open>The version of the changelog\<close>

lemma startswith_iff: "startswith s sub \<longleftrightarrow> (\<exists>b. s = sub @ b)"
  unfolding startswith_def
  by (metis append_eq_conv_conj append_take_drop_id)

lemma contains_iff: "contains s sub \<longleftrightarrow> (\<exists>a b. s = a @ sub @ b)"
  unfolding contains_def
proof (induction s)
  case Nil
  then show ?case by auto
next
  case (Cons c s)
  show ?case
  proof (cases "startswith (c # s) sub")
    case True
    then obtain b where "c # s = [] @ sub @ b"
      using startswith_iff by auto
    with True show ?thesis by (metis find_from.simps(2) option.distinct(1))
  next
    case False
    have "(\<exists>a b. c # s = a @ sub @ b) \<longleftrightarrow> (\<exists>a b. s = a @ sub @ b)"
    proof
      assume "\<exists>a b. c # s = a @ sub @ b"
      then obtain a b where ab: "c # s = a @ sub @ b" by blast
      with False have "a \<noteq> []"
        using startswith_iff by fastforce
      then obtain a' where "a = c # a'"
        using ab by (cases a) auto
      with ab show "\<exists>a b. s = a @ sub @ b" by auto
    next
      assume "\<exists>a b. s = a @ sub @ b"
      then obtain a b where "s = a @ sub @ b" by blast
      then have "c # s = (c # a) @ sub @ b" by simp
      then show "\<exists>a b. c # s = a @ sub @ b" by blast
    qed
    with False Cons show ?thesis by simp
  qed
qed

lemma get_local_versions_changelog:
  assumes "get_local_versions (Some changelog_text) setup conf = Inr (v1, v2, v3)"
  shows "v1 = scan_changelog (readlines changelog_text)"
  using assms
  by (auto simp: get_local_versions_def read_file_def split: sum.splits option.splits)

lemma startswith_char: "startswith (x # xs) [c] = (x = c)"
  by (simp add: startswith_def)

lemma find_from_char_append:
  "c \<notin> set a \<Longrightarrow> find_from (a @ c # b) [c] = Some (length a)"
  by (induction a) (auto simp: startswith_char)

lemma find_str_char_append:
  "c \<notin> set a \<Longrightarrow> find_str (a @ c # b) [c] = int (length a)"
  by (simp add: find_str_def find_from_char_append)

lemma scan_changelog_skip:
  "\<forall>l \<in> set earlier. \<not> contains l ''##'' \<Longrightarrow>
     scan_changelog (earlier @ rest) = scan_changelog rest"
  by (induction earlier) auto

lemma slice_nat:
  "slice s (int i) (int j)
     = take (min j (length s) - min i (length s)) (drop (min i (length s)) s)"
  by (auto simp: slice_def slice_bound_def Let_def min_def)

lemma slice_between:
  assumes "CHR ''['' \<notin> set a" and "CHR '']'' \<notin> set a" and "CHR '']'' \<notin> set m"
  shows "slice (a @ ''['' @ m @ '']'' @ b) (find_str (a @ ''['' @ m @ '']'' @ b) ''['' + 1)
           (find_str (a @ ''['' @ m @ '']'' @ b) '']'') = m"
proof -
  have open_at: "find_str (a @ ''['' @ m @ '']'' @ b) ''['' = int (length a)"
    using assms(1) find_str_char_append [of "CHR ''[''" a "m @ '']'' @ b"] by simp
  have "CHR '']'' \<notin> set (a @ ''['' @ m)"
    using assms(2,3) by simp
  then have "find_str ((a @ ''['' @ m) @ CHR '']'' # b) '']'' = int (length (a @ ''['' @ m))"
    by (rule find_str_char_append)
  then have close_at: "find_str (a @ ''['' @ m @ '']'' @ b) '']'' = int (length a + 1 + length m)"
    by simp
  have lo: "find_str (a @ ''['' @ m @ '']'' @ b) ''['' + 1 = int (Suc (length a))"
    using open_at by simp
  show ?thesis
    unfolding lo close_at slice_nat by simp
qed

lemma slice_reversed:
  assumes "CHR ''['' \<notin> set a" and "CHR '']'' \<notin> set a" and "CHR ''['' \<notin> set m"
  shows "slice (a @ '']'' @ m @ ''['' @ b) (find_str (a @ '']'' @ m @ ''['' @ b) ''['' + 1)
           (find_str (a @ '']'' @ m @ ''['' @ b) '']'') = []"
proof -
  have close_at: "find_str (a @ '']'' @ m @ ''['' @ b) '']'' = int (length a)"
    using assms(2) find_str_char_append [of "CHR '']''" a "m @ ''['' @ b"] by simp
  have "CHR ''['' \<notin> set (a @ '']'' @ m)"
    using assms(1,3) by simp
  then have "find_str ((a @ '']'' @ m) @ CHR ''['' # b) ''['' = int (length (a @ '']'' @ m))"
    by (rule find_str_char_append)
  then have open_at: "find_str (a @ '']'' @ m @ ''['' @ b) ''['' = int (length a + 1 + length m)"
    by simp
  have lo: "find_str (a @ '']'' @ m @ ''['' @ b) ''['' + 1 = int (length a + 2 + length m)"
    using open_at by simp
  show ?thesis
    unfolding lo close_at slice_nat by simp
qed

text \<open>
  Claim C8, as the code has it: the loop goes through the lines of the changelog in order
  and returns \<^verbatim>\<open>None\<close> when no line has \<^verbatim>\<open>##\<close> in it. The first line with \<^verbatim>\<open>##\<close> in it
  decides, whatever the later lines are: the result is the slice from behind the first
  \<^verbatim>\<open>[\<close> of the line up to the first \<^verbatim>\<open>]\<close> of the line, without the white space around
  it. When the first \<^verbatim>\<open>]\<close> comes after the first \<^verbatim>\<open>[\<close> this is the text between them;
  when it comes before, the result is the empty string.
\<close>

theorem changelog_version_first_section:
  assumes "\<forall>l \<in> set earlier. \<not> contains l ''##''"
  shows "scan_changelog earlier = None
       \<and> (contains line ''##'' \<longrightarrow>
            scan_changelog (earlier @ line # later)
              = Some (strip (slice line (find_str line ''['' + 1) (find_str line '']''))))
       \<and> (contains line ''##'' \<and> line = a @ ''['' @ m @ '']'' @ b
            \<and> CHR ''['' \<notin> set a \<and> CHR '']'' \<notin> set a \<and> CHR '']'' \<notin> set m \<longrightarrow>
            scan_changelog (earlier @ line # later) = Some (strip m))
       \<and> (contains line ''##'' \<and> line = a @ '']'' @ m @ ''['' @ b
            \<and> CHR ''['' \<notin> set a \<and> CHR '']'' \<notin> set a \<and> CHR ''['' \<notin> set m \<longrightarrow>
            scan_changelog (earlier @ line # later) = Some [])"
proof -
  have none: "scan_changelog earlier = None"
    using scan_changelog_skip [OF assms, of "[]"] by simp
  have found: "scan_changelog (earlier @ line # later)
      = Some (strip (slice line (find_str line ''['' + 1) (find_str line '']'')))"
    if "contains line ''##''"
    using that by (simp add: scan_changelog_skip [OF assms])
  have strip_empty: "strip [] = []"
    by (simp add: strip_def)
  show ?thesis
    using none found slice_between [of a m b] slice_reversed [of a m b] strip_empty
    by auto
qed

text \<open>
  Claim C8 at a changelog with two sections, and at one whose first section has a
  \<^verbatim>\<open>]\<close> before its \<^verbatim>\<open>[\<close>.
\<close>

theorem changelog_version_first_section_witness:
  "readlines (changelog ''1.3.0'')
     = [''# Changelog'' @ [newline], [newline]]
       @ (''## [1.3.0] - 2020-09-01'' @ [newline]) # [''## [0.0.1]'' @ [newline]]
   \<and> \<not> contains (''# Changelog'' @ [newline]) ''##'' \<and> \<not> contains [newline] ''##''
   \<and> contains (''## [1.3.0] - 2020-09-01'' @ [newline]) ''##''
   \<and> ''## [1.3.0] - 2020-09-01'' @ [newline]
       = ''## '' @ ''['' @ ''1.3.0'' @ '']'' @ ('' - 2020-09-01'' @ [newline])
   \<and> CHR ''['' \<notin> set ''## '' \<and> CHR '']'' \<notin> set ''## '' \<and> CHR '']'' \<notin> set ''1.3.0''
   \<and> scan_changelog (readlines (changelog ''1.3.0'')) = Some ''1.3.0''
   \<and> contains (''## ] [1.2.0]'' @ [newline]) ''##''
   \<and> ''## ] [1.2.0]'' @ [newline] = ''## '' @ '']'' @ '' '' @ ''['' @ (''1.2.0]'' @ [newline])
   \<and> CHR ''['' \<notin> set '' ''
   \<and> scan_changelog ([''# Changelog'' @ [newline], [newline]]
         @ (''## ] [1.2.0]'' @ [newline]) # [''## [0.0.1]'' @ [newline]]) = Some []"
proof -
  let ?earlier = "[''# Changelog'' @ [newline], [newline]]"
  let ?later = "[''## [0.0.1]'' @ [newline]]"
  have lines: "readlines (changelog ''1.3.0'')
     = ?earlier @ (''## [1.3.0] - 2020-09-01'' @ [newline]) # ?later"
    by code_simp
  have skip: "\<forall>l \<in> set ?earlier. \<not> contains l ''##''"
    by code_simp
  have c1: "contains (''## [1.3.0] - 2020-09-01'' @ [newline]) ''##''"
    by code_simp
  have c2: "contains (''## ] [1.2.0]'' @ [newline]) ''##''"
    by code_simp
  have s: "strip ''1.3.0'' = ''1.3.0''"
    by code_simp
  have d1: "''## [1.3.0] - 2020-09-01'' @ [newline]
       = ''## '' @ ''['' @ ''1.3.0'' @ '']'' @ ('' - 2020-09-01'' @ [newline])"
    by simp
  have d2: "''## ] [1.2.0]'' @ [newline] = ''## '' @ '']'' @ '' '' @ ''['' @ (''1.2.0]'' @ [newline])"
    by simp
  have n: "CHR ''['' \<notin> set ''## ''" "CHR '']'' \<notin> set ''## ''" "CHR '']'' \<notin> set ''1.3.0''"
    "CHR ''['' \<notin> set '' ''"
    by simp_all
  have v1: "scan_changelog (?earlier @ (''## [1.3.0] - 2020-09-01'' @ [newline]) # ?later)
      = Some (strip ''1.3.0'')"
    using changelog_version_first_section [OF skip,
        where line = "''## [1.3.0] - 2020-09-01'' @ [newline]" and a = "''## ''"
        and m = "''1.3.0''" and b = "'' - 2020-09-01'' @ [newline]" and later = ?later]
      c1 d1 n
    by blast
  have v2: "scan_changelog (?earlier @ (''## ] [1.2.0]'' @ [newline]) # ?later) = Some []"
    using changelog_version_first_section [OF skip,
        where line = "''## ] [1.2.0]'' @ [newline]" and a = "''## ''"
        and m = "'' ''" and b = "''1.2.0]'' @ [newline]" and later = ?later]
      c2 d2 n
    by blast
  have skip': "\<not> contains (''# Changelog'' @ [newline]) ''##''" "\<not> contains [newline] ''##''"
    using skip by simp_all
  show ?thesis
    unfolding lines using skip' c1 c2 d1 d2 n v1 v2 unfolding s by blast
qed

text \<open>
  Claim C8 as stated fails: in the line \<^verbatim>\<open>## ] [1.2.0]\<close> the text between the first
  \<^verbatim>\<open>[\<close> and the first \<^verbatim>\<open>]\<close> after it is \<^verbatim>\<open>1.2.0\<close>, and the loop returns the empty string.
\<close>

theorem changelog_version_bracket_order:
  "contains (''## ] [1.2.0]'' @ [newline]) ''##''
   \<and> ''## ] [1.2.0]'' @ [newline] = ''## ] '' @ ''['' @ ''1.2.0'' @ '']'' @ [newline]
   \<and> CHR ''['' \<notin> set ''## ] '' \<and> CHR '']'' \<notin> set ''1.2.0''
   \<and> strip ''1.2.0'' = ''1.2.0''
   \<and> scan_changelog [''## ] [1.2.0]'' @ [newline]] = Some []"
  by code_simp

end
